theory Spec2Isabelle
  imports Main "HOL-Library.Char_ord" "HOL-Library.List_Lexorder" "HOL-Library.Word"
begin

section \<open>JavaScript values used by scripts/webdav\_fs.js\<close>

text \<open>
  An \<open>ArrayBuffer\<close> is its sequence of bytes. The other values that reach the functions
  below are \<open>undefined\<close>, booleans, integral numbers, strings and \<open>Date\<close> objects
  (kept as the string the date was built from).
\<close>

type_synonym bytes = "8 word list"

datatype jsval =
    JUndefined
  | JBool bool
  | JNum int
  | JStr string
  | JDate string
  | JBuf bytes

text \<open>The truthiness test of \<open>!v\<close> and \<open>if (v)\<close>; every object is truthy.\<close>

fun truthy :: "jsval \<Rightarrow> bool" where
  "truthy JUndefined = False"
| "truthy (JBool b) = b"
| "truthy (JNum n) = (n \<noteq> 0)"
| "truthy (JStr s) = (s \<noteq> [])"
| "truthy (JDate d) = True"
| "truthy (JBuf b) = True"

text \<open>
  A plain object whose own keys are enumerated (\<open>Object.keys\<close>) is an association list in
  insertion order. An object that is only read through \<open>o[key]\<close> is the function from key
  to value, \<open>undefined\<close> where the read finds nothing.
\<close>

type_synonym obj = "(string \<times> jsval) list"

definition Object_keys :: "obj \<Rightarrow> string list" where
  "Object_keys ob = map fst ob"

definition delete_prop :: "string \<Rightarrow> (string \<times> 'a) list \<Rightarrow> (string \<times> 'a) list" where
  "delete_prop key ob = filter (\<lambda>kv. fst kv \<noteq> key) ob"

definition Object_values :: "(string \<times> 'a) list \<Rightarrow> 'a list" where
  "Object_values ob = map snd ob"

definition set_prop :: "string \<Rightarrow> 'a \<Rightarrow> (string \<times> 'a) list \<Rightarrow> (string \<times> 'a) list" where
  "set_prop key v ob =
     (if key \<in> set (map fst ob) then map (\<lambda>kv. if fst kv = key then (key, v) else kv) ob
      else ob @ [(key, v)])"

text \<open>
  \<open>String(index)\<close> for a non-negative integral number below \<open>10^21\<close>: its decimal digits,
  no sign, no leading zero.
\<close>

definition digit_char :: "nat \<Rightarrow> char" where
  "digit_char d = char_of (48 + d)"

fun String_of_nat :: "nat \<Rightarrow> string" where
  "String_of_nat n =
     (if n < 10 then [digit_char n]
      else String_of_nat (n div 10) @ [digit_char (n mod 10)])"

declare String_of_nat.simps [simp del]

text \<open>\<open>s.slice(-k)\<close> for \<open>k > 0\<close>: the last \<open>k\<close> characters, all of \<open>s\<close> when it is shorter.\<close>

definition slice_last :: "nat \<Rightarrow> string \<Rightarrow> string" where
  "slice_last k s = drop (length s - k) s"

text \<open>
  \<open>buffer.slice(0, end)\<close> of an \<open>ArrayBuffer\<close>: a negative \<open>end\<close> counts from the end of the
  buffer, and the result is clamped to the buffer.
\<close>

definition buffer_slice0 :: "bytes \<Rightarrow> int \<Rightarrow> bytes" where
  "buffer_slice0 buffer end =
     (let len = int (length buffer);
          final = (if end < 0 then max (len + end) 0 else min end len)
      in take (nat final) buffer)"

section \<open>The helper functions at the end of the file\<close>

text \<open>
  \<^verbatim>\<open>function createFileSystemID(url, username) { return `webdavfs://${username}/${url}`; }\<close>
\<close>

definition createFileSystemID :: "string \<Rightarrow> string \<Rightarrow> string" where
  "createFileSystemID url username = ''webdavfs://'' @ username @ ''/'' @ url"

text \<open>
  \<^verbatim>\<open>function paddedIndex(index) {
    const padding = '000000000000000';
    const length = padding.length;
    return (padding + String(index)).slice(-length);
  }\<close>
\<close>

definition paddedIndex :: "nat \<Rightarrow> string" where
  "paddedIndex index =
     (let padding = ''000000000000000'';
          length' = length padding
      in slice_last length' (padding @ String_of_nat index))"

text \<open>
  The remote \<open>stat\<close> record, as \<open>fromStat\<close> destructures it; \<open>mime\<close> is absent for a
  directory.
\<close>

record stat =
  basename :: string
  lastmod :: string
  size' :: int
  type :: string
  mime :: "string option"

text \<open>
  \<^verbatim>\<open>function fromStat(stat) {
    const { basename, lastmod, size, type, mime } = stat;
    return { isDirectory: type === 'directory', name: basename, size: size,
             modificationTime: new Date(lastmod), mimeType: mime };
  }\<close>
\<close>

definition fromStat :: "stat \<Rightarrow> obj" where
  "fromStat st =
     [(''isDirectory'', JBool (type st = ''directory'')),
      (''name'', JStr (basename st)),
      (''size'', JNum (size' st)),
      (''modificationTime'', JDate (lastmod st)),
      (''mimeType'', (case mime st of None \<Rightarrow> JUndefined | Some m \<Rightarrow> JStr m))]"

text \<open>
  \<^verbatim>\<open>function canonicalizedMetadata(metadata, options) {
    const _metadata = Object.assign({}, metadata);
    for (const key of Object.keys(metadata)) {
      if (!options[key]) delete _metadata[key];
    }
    return _metadata;
  }\<close>
\<close>

definition canonicalizedMetadata :: "obj \<Rightarrow> (string \<Rightarrow> jsval) \<Rightarrow> obj" where
  "canonicalizedMetadata metadata options =
     fold (\<lambda>key metadata'. if \<not> truthy (options key) then delete_prop key metadata' else metadata')
          (Object_keys metadata) metadata"

text \<open>
  The path of the chunk object in \<open>onWriteFileRequested\<close>. Offsets and byte lengths are
  natural numbers: the sum and its decimal print are those of JavaScript as long as the
  numbers stay below \<open>2^53\<close>, where a number holds every integer exactly.
  \<^verbatim>\<open>const end = offset + data.byteLength;
  const uploadPath = `/${uuid}/${paddedIndex(offset)}-${paddedIndex(end)}`;\<close>
\<close>

definition uploadPath :: "string \<Rightarrow> nat \<Rightarrow> bytes \<Rightarrow> string" where
  "uploadPath uuid offset data =
     (let end = offset + length data
      in ''/'' @ uuid @ ''/'' @ paddedIndex offset @ ''-'' @ paddedIndex end)"

section \<open>The metadata cache\<close>

text \<open>
  Modelled from the spec: the class \<open>MetadataCache\<close> (\<open>new MetadataCache()\<close>, \<open>put\<close>,
  \<open>get\<close>, \<open>remove\<close>), which the handlers use and whose file is not among the sources.
  The spec gives it two sub-caches keyed by absolute path, a directory-listing cache (path
  to the ordered children) and a single-entry cache (path to metadata). \<open>put\<close> stores the
  full child list of a directory; storing an entry has no operation of its own and is
  implicit in storing a listing, so \<open>put\<close> also records each child under its own path, the
  directory path joined with the name of the child. \<open>get\<close> first checks whether the path
  was returned as a child within some cached listing, then checks the single-entry cache,
  and returns the two presence flags and the cached metadata, under the field names the
  handlers read: \<open>directoryExists\<close> (listing present), \<open>fileExists\<close> (entry present) and
  \<open>metadata\<close>. \<open>remove\<close> evicts the listing and the entry of the path itself, not the
  listing of its parent.
\<close>

record MetadataCache =
  listings :: "(string \<times> obj list) list"
  entries :: "(string \<times> obj) list"

record cacheResult =
  directoryExists :: bool
  fileExists :: bool
  metadata :: "obj option"

definition new_MetadataCache :: MetadataCache where
  "new_MetadataCache = \<lparr>listings = [], entries = []\<rparr>"

definition child_path :: "string \<Rightarrow> obj \<Rightarrow> string option" where
  "child_path directoryPath md =
     (case map_of md ''name'' of
        Some (JStr n) \<Rightarrow>
          Some (if directoryPath = ''/'' then ''/'' @ n else directoryPath @ ''/'' @ n)
      | _ \<Rightarrow> None)"

definition MetadataCache_put :: "string \<Rightarrow> obj list \<Rightarrow> MetadataCache \<Rightarrow> MetadataCache" where
  "MetadataCache_put directoryPath metadataList c =
     c\<lparr>listings := set_prop directoryPath metadataList (listings c),
       entries := fold (\<lambda>md es. case child_path directoryPath md of
                                   None \<Rightarrow> es
                                 | Some path \<Rightarrow> set_prop path md es)
                       metadataList (entries c)\<rparr>"

definition MetadataCache_get :: "string \<Rightarrow> MetadataCache \<Rightarrow> cacheResult" where
  "MetadataCache_get entryPath c =
     \<lparr>directoryExists =
        list_ex (\<lambda>listing. list_ex (\<lambda>md. child_path (fst listing) md = Some entryPath)
                                      (snd listing))
                (listings c),
      fileExists = (map_of (entries c) entryPath \<noteq> None),
      metadata = map_of (entries c) entryPath\<rparr>"

definition MetadataCache_remove :: "string \<Rightarrow> MetadataCache \<Rightarrow> MetadataCache" where
  "MetadataCache_remove entryPath c =
     c\<lparr>listings := delete_prop entryPath (listings c),
       entries := delete_prop entryPath (entries c)\<rparr>"

section \<open>The world outside the class\<close>

text \<open>
  The remote client (\<open>WebDAV.createClient(url, { username, password })\<close>), the host's
  \<open>browser.fileSystemProvider\<close> and \<open>browser.storage.local\<close> are not part of the program.
  Every call to them is a request; the handlers append each request they issue to \<open>calls\<close>
  and go on with the reply, which the environment \<open>env\<close> chooses from the requests issued
  so far and the present one. A rejected promise carries the message of its \<open>Error\<close>.
\<close>

datatype client = Client string string string

definition createClient :: "string \<Rightarrow> string \<Rightarrow> string \<Rightarrow> client" where
  "createClient url username password = Client url username password"

text \<open>A persisted mount record, \<open>{ name, url, username, password }\<close>.\<close>

datatype credential = Credential string string string string

datatype request =
    GetDirectoryContents client string
  | Stat client string
  | CreateDirectory client string
  | MoveFile client string string
  | CopyFile client string string
  | DeleteFile client string
  | PutFileContents client jsval jsval
  | GetFileContents client string
  | FspMount string string bool
  | FspUnmount string
  | StorageGet
  | StorageSet "(string \<times> credential) list"

datatype reply =
    Rejected string
  | Resolved
  | ResolvedStats "stat list"
  | ResolvedStat stat
  | ResolvedBuffer bytes
  | ResolvedStorage "(string \<times> credential) list option"

type_synonym env = "request list \<Rightarrow> request \<Rightarrow> reply"

text \<open>What a handler can throw.\<close>

datatype error =
    ReferenceError string
  | TypeError string
  | Error string

section \<open>The class WebDAVFS\<close>

text \<open>
  An entry of \<open>#openedFilesMap\<close>: \<open>{ filePath, mode, uuid }\<close> as \<open>onOpenFileRequested\<close>
  stores it, or the empty object \<open>{}\<close> that \<open>resumeMounts\<close> stores. The keys of a
  JavaScript object are strings: a numeric request id is the key \<open>String(requestId)\<close>.
\<close>

datatype opened = Opened string string string | EmptyObject

record WebDAVFS =
  webDAVClientMap :: "string \<rightharpoonup> client"
  openedFilesMap :: "string \<rightharpoonup> opened"
  metadataCacheMap :: "string \<rightharpoonup> MetadataCache"
  calls :: "request list"

definition await :: "env \<Rightarrow> request \<Rightarrow> WebDAVFS \<Rightarrow> reply \<times> WebDAVFS" where
  "await env r s = (env (calls s) r, s\<lparr>calls := calls s @ [r]\<rparr>)"

text \<open>
  \<^verbatim>\<open>async function getMountedCredentials() {
    const { mountedCredentials } = await browser.storage.local.get();
    return Object.values(mountedCredentials || {});
  }\<close>
\<close>

definition getMountedCredentials :: "env \<Rightarrow> WebDAVFS \<Rightarrow> (error + credential list) \<times> WebDAVFS" where
  "getMountedCredentials env s =
     (case await env StorageGet s of
        (Rejected e, s1) \<Rightarrow> (Inl (Error e), s1)
      | (ResolvedStorage mountedCredentials, s1) \<Rightarrow>
          (Inr (Object_values (case mountedCredentials of None \<Rightarrow> [] | Some m \<Rightarrow> m)), s1)
      | (_, s1) \<Rightarrow> (Inl (TypeError ''storage.local.get''), s1))"

text \<open>
  \<^verbatim>\<open>async function removeMountedCredential(fileSystemId) {
    const { mountedCredentials } = await browser.storage.local.get();
    if (!mountedCredentials) return;
    delete mountedCredentials[fileSystemId];
    await browser.storage.local.set({ mountedCredentials });
  }\<close>
\<close>

definition removeMountedCredential :: "env \<Rightarrow> string \<Rightarrow> WebDAVFS \<Rightarrow> (error + unit) \<times> WebDAVFS" where
  "removeMountedCredential env fileSystemId s =
     (case await env StorageGet s of
        (Rejected e, s1) \<Rightarrow> (Inl (Error e), s1)
      | (ResolvedStorage None, s1) \<Rightarrow> (Inr (), s1)
      | (ResolvedStorage (Some mountedCredentials), s1) \<Rightarrow>
          (case await env (StorageSet (delete_prop fileSystemId mountedCredentials)) s1 of
             (Rejected e, s2) \<Rightarrow> (Inl (Error e), s2)
           | (_, s2) \<Rightarrow> (Inr (), s2))
      | (_, s1) \<Rightarrow> (Inl (TypeError ''storage.local.get''), s1))"

text \<open>
  The body of the loop of \<open>resumeMounts\<close>, for one record, and the loop. A rejected
  \<open>await\<close> throws out of the loop: there is no \<open>try\<close> in the method.
  \<^verbatim>\<open>async resumeMounts() {
    for (const { name, url, username, password } of await getMountedCredentials()) {
      const client = WebDAV.createClient(url, { username, password });
      await client.getDirectoryContents('/'); // connect and authenticate
      const fileSystemId = createFileSystemID(url, username);
      await browser.fileSystemProvider.mount(
        { fileSystemId, displayName: name, writable: true });
      this.#webDAVClientMap[fileSystemId] = client;
      this.#openedFilesMap[fileSystemId] = {};
      this.#metadataCacheMap[fileSystemId] = new MetadataCache();
    }
  }\<close>
\<close>

fun resumeMount :: "env \<Rightarrow> credential \<Rightarrow> WebDAVFS \<Rightarrow> (error + unit) \<times> WebDAVFS" where
  "resumeMount env (Credential name url username password) s =
     (let client = createClient url username password
      in case await env (GetDirectoryContents client ''/'') s of
           (Rejected e, s1) \<Rightarrow> (Inl (Error e), s1)
         | (_, s1) \<Rightarrow>
             (let fileSystemId = createFileSystemID url username
              in case await env (FspMount fileSystemId name True) s1 of
                   (Rejected e, s2) \<Rightarrow> (Inl (Error e), s2)
                 | (_, s2) \<Rightarrow>
                     (Inr (), s2\<lparr>webDAVClientMap := (webDAVClientMap s2)(fileSystemId \<mapsto> client),
                                 openedFilesMap := (openedFilesMap s2)(fileSystemId \<mapsto> EmptyObject),
                                 metadataCacheMap := (metadataCacheMap s2)(fileSystemId \<mapsto> new_MetadataCache)\<rparr>)))"

fun resumeMounts_loop :: "env \<Rightarrow> credential list \<Rightarrow> WebDAVFS \<Rightarrow> (error + unit) \<times> WebDAVFS" where
  "resumeMounts_loop env [] s = (Inr (), s)"
| "resumeMounts_loop env (c # rest) s =
     (case resumeMount env c s of
        (Inl e, s1) \<Rightarrow> (Inl e, s1)
      | (Inr u, s1) \<Rightarrow> resumeMounts_loop env rest s1)"

definition resumeMounts :: "env \<Rightarrow> WebDAVFS \<Rightarrow> (error + unit) \<times> WebDAVFS" where
  "resumeMounts env s =
     (case getMountedCredentials env s of
        (Inl e, s1) \<Rightarrow> (Inl e, s1)
      | (Inr credentials, s1) \<Rightarrow> resumeMounts_loop env credentials s1)"

text \<open>
  \<^verbatim>\<open>async onUnmountRequested(options) {
    const { fileSystemId } = options;
    await browser.fileSystemProvider.unmount({ fileSystemId });
    delete this.#webDAVClientMap[fileSystemId];
    delete this.#openedFilesMap[fileSystemId];
    delete this.#metadataCacheMap[fileSystemId];
    await removeMountedCredential(fileSystemId);
  }\<close>
\<close>

definition onUnmountRequested :: "env \<Rightarrow> string \<Rightarrow> WebDAVFS \<Rightarrow> (error + unit) \<times> WebDAVFS" where
  "onUnmountRequested env fileSystemId s =
     (case await env (FspUnmount fileSystemId) s of
        (Rejected e, s1) \<Rightarrow> (Inl (Error e), s1)
      | (_, s1) \<Rightarrow>
          removeMountedCredential env fileSystemId
            (s1\<lparr>webDAVClientMap := (webDAVClientMap s1)(fileSystemId := None),
                openedFilesMap := (openedFilesMap s1)(fileSystemId := None),
                metadataCacheMap := (metadataCacheMap s1)(fileSystemId := None)\<rparr>))"

text \<open>
  In the handlers below \<open>options\<close> is the request record read through \<open>options[key]\<close>;
  the fields a handler destructures from it are arguments of their own, with the types the
  host gives them. Reading a member of \<open>undefined\<close> (a mount or a handle that is not in its
  map) throws a \<open>TypeError\<close>.
  \<^verbatim>\<open>async onReadDirectoryRequested(options) {
    const { fileSystemId, directoryPath } = options;
    const client = this.#webDAVClientMap[fileSystemId];
    const stats = await client.getDirectoryContents(directoryPath);
    const metadataList = stats.map(fromStat);
    const metadataCache = this.#metadataCacheMap[fileSystemId];
    metadataCache.put(directoryPath, metadataList);
    const hasMore = false;
    return [metadataList.map(metadata => canonicalizedMetadata(metadata, options)), hasMore];
  }\<close>
\<close>

definition onReadDirectoryRequested ::
  "env \<Rightarrow> string \<Rightarrow> string \<Rightarrow> (string \<Rightarrow> jsval) \<Rightarrow> WebDAVFS \<Rightarrow> (error + obj list \<times> bool) \<times> WebDAVFS" where
  "onReadDirectoryRequested env fileSystemId directoryPath options s =
     (case webDAVClientMap s fileSystemId of
        None \<Rightarrow> (Inl (TypeError ''client''), s)
      | Some client \<Rightarrow>
          (case await env (GetDirectoryContents client directoryPath) s of
             (Rejected e, s1) \<Rightarrow> (Inl (Error e), s1)
           | (ResolvedStats stats, s1) \<Rightarrow>
               (let metadataList = map fromStat stats
                in case metadataCacheMap s1 fileSystemId of
                     None \<Rightarrow> (Inl (TypeError ''metadataCache''), s1)
                   | Some metadataCache \<Rightarrow>
                       (let s2 = s1\<lparr>metadataCacheMap := (metadataCacheMap s1)
                                       (fileSystemId \<mapsto> MetadataCache_put directoryPath metadataList metadataCache)\<rparr>;
                            hasMore = False
                        in (Inr (map (\<lambda>md. canonicalizedMetadata md options) metadataList, hasMore), s2)))
           | (_, s1) \<Rightarrow> (Inl (TypeError ''stats''), s1)))"

text \<open>
  \<^verbatim>\<open>async onGetMetadataRequested(options) {
    const { fileSystemId, entryPath, thumbnail } = options;
    if (thumbnail) throw new Error('Thumbnail not supported');
    const client = this.#webDAVClientMap[fileSystemId];
    const metadataCache = this.#metadataCacheMap[fileSystemId];
    const cache = metadataCache.get(entryPath);
    if (cache.directoryExists && cache.fileExists)
      return [canonicalizedMetadata(cache.metadata, options)];
    const stat = await client.stat(entryPath);
    return [canonicalizedMetadata(fromStat(stat), options)];
  }\<close>
\<close>

definition onGetMetadataRequested ::
  "env \<Rightarrow> string \<Rightarrow> string \<Rightarrow> (string \<Rightarrow> jsval) \<Rightarrow> WebDAVFS \<Rightarrow> (error + obj list) \<times> WebDAVFS" where
  "onGetMetadataRequested env fileSystemId entryPath options s =
     (let thumbnail = options ''thumbnail''
      in if truthy thumbnail then (Inl (Error ''Thumbnail not supported''), s)
         else case metadataCacheMap s fileSystemId of
                None \<Rightarrow> (Inl (TypeError ''metadataCache''), s)
              | Some metadataCache \<Rightarrow>
                  (let cache = MetadataCache_get entryPath metadataCache
                   in if directoryExists cache \<and> fileExists cache
                      then (case metadata cache of
                              None \<Rightarrow> (Inl (TypeError ''metadata''), s)
                            | Some md \<Rightarrow> (Inr [canonicalizedMetadata md options], s))
                      else case webDAVClientMap s fileSystemId of
                             None \<Rightarrow> (Inl (TypeError ''client''), s)
                           | Some client \<Rightarrow>
                               (case await env (Stat client entryPath) s of
                                  (Rejected e, s1) \<Rightarrow> (Inl (Error e), s1)
                                | (ResolvedStat st, s1) \<Rightarrow>
                                    (Inr [canonicalizedMetadata (fromStat st) options], s1)
                                | (_, s1) \<Rightarrow> (Inl (TypeError ''stat''), s1))))"

text \<open>
  \<open>onOpenFileRequested\<close> destructures \<open>requestId\<close>, \<open>filePath\<close> and \<open>mode\<close> only. The
  identifier \<open>fileSystemId\<close> in its \<open>WRITE\<close> branch is bound neither in the method nor in
  an enclosing scope of the file, so evaluating it throws a \<open>ReferenceError\<close> before
  \<open>createDirectory\<close> is called. \<open>uuid\<close> is the value \<open>uuidv1()\<close> returned.
  \<^verbatim>\<open>async onOpenFileRequested(options) {
    const { requestId, filePath, mode } = options;
    const uuid = uuidv1();
    if (mode === 'WRITE') {
      const client = this.#webDAVClientMap[fileSystemId];
      await client.createDirectory('/' + uuid);
    }
    this.#openedFilesMap[requestId] = { filePath, mode, uuid };
  }\<close>
\<close>

definition onOpenFileRequested ::
  "string \<Rightarrow> nat \<Rightarrow> string \<Rightarrow> string \<Rightarrow> WebDAVFS \<Rightarrow> (error + unit) \<times> WebDAVFS" where
  "onOpenFileRequested uuid requestId filePath mode s =
     (if mode = ''WRITE'' then (Inl (ReferenceError ''fileSystemId''), s)
      else (Inr (), s\<lparr>openedFilesMap :=
                         (openedFilesMap s)(String_of_nat requestId \<mapsto> Opened filePath mode uuid)\<rparr>))"

text \<open>
  \<^verbatim>\<open>async onCloseFileRequested(options) {
    const { fileSystemId, openRequestId } = options;
    const { filePath, mode, uuid } = this.#openedFilesMap[openRequestId];
    if (mode === 'WRITE') {
      const client = this.#webDAVClientMap[fileSystemId];
      await client.moveFile(`/${uuid}/.file`, filePath);
    }
    delete this.#openedFilesMap[openRequestId];
  }\<close>
\<close>

definition onCloseFileRequested :: "env \<Rightarrow> string \<Rightarrow> nat \<Rightarrow> WebDAVFS \<Rightarrow> (error + unit) \<times> WebDAVFS" where
  "onCloseFileRequested env fileSystemId openRequestId s =
     (case openedFilesMap s (String_of_nat openRequestId) of
        None \<Rightarrow> (Inl (TypeError ''openedFile''), s)
      | Some EmptyObject \<Rightarrow>
          (Inr (), s\<lparr>openedFilesMap := (openedFilesMap s)(String_of_nat openRequestId := None)\<rparr>)
      | Some (Opened filePath mode uuid) \<Rightarrow>
          (if mode = ''WRITE''
           then case webDAVClientMap s fileSystemId of
                  None \<Rightarrow> (Inl (TypeError ''client''), s)
                | Some client \<Rightarrow>
                    (case await env (MoveFile client (''/'' @ uuid @ ''/.file'') filePath) s of
                       (Rejected e, s1) \<Rightarrow> (Inl (Error e), s1)
                     | (_, s1) \<Rightarrow>
                         (Inr (), s1\<lparr>openedFilesMap :=
                                       (openedFilesMap s1)(String_of_nat openRequestId := None)\<rparr>))
           else (Inr (), s\<lparr>openedFilesMap :=
                              (openedFilesMap s)(String_of_nat openRequestId := None)\<rparr>)))"

text \<open>
  The template literal of \<open>onCreateDirectoryRequested\<close> reads \<open>recursive\<close>, which the
  method does not destructure and no enclosing scope binds: the \<open>ReferenceError\<close> is thrown
  before the client is looked up.
  \<^verbatim>\<open>async onCreateDirectoryRequested(options) {
    const { fileSystemId, directoryPath } = options;
    console.log(`... directoryPath=${directoryPath}, recursive=${recursive}`);
    const client = this.#webDAVClientMap[fileSystemId];
    await client.createDirectory(directoryPath);
  }\<close>
\<close>

definition onCreateDirectoryRequested :: "env \<Rightarrow> string \<Rightarrow> string \<Rightarrow> WebDAVFS \<Rightarrow> (error + unit) \<times> WebDAVFS" where
  "onCreateDirectoryRequested env fileSystemId directoryPath s = (Inl (ReferenceError ''recursive''), s)"

text \<open>
  The handlers that evict do it with \<open>metadataCache.remove(path)\<close> on the cache of the
  mount, once per path.
\<close>

definition evict :: "string \<Rightarrow> string list \<Rightarrow> WebDAVFS \<Rightarrow> (error + unit) \<times> WebDAVFS" where
  "evict fileSystemId paths s =
     (case metadataCacheMap s fileSystemId of
        None \<Rightarrow> (Inl (TypeError ''metadataCache''), s)
      | Some metadataCache \<Rightarrow>
          (Inr (), s\<lparr>metadataCacheMap := (metadataCacheMap s)
                        (fileSystemId \<mapsto> fold MetadataCache_remove paths metadataCache)\<rparr>))"

text \<open>
  \<open>deleteFile\<close> is not awaited: its reply is dropped.
  \<^verbatim>\<open>async onDeleteEntryRequested(options) {
    const { fileSystemId, entryPath } = options;
    const client = this.#webDAVClientMap[fileSystemId];
    client.deleteFile(entryPath);
    const metadataCache = this.#metadataCacheMap[fileSystemId];
    metadataCache.remove(entryPath);
  }\<close>
\<close>

definition onDeleteEntryRequested :: "env \<Rightarrow> string \<Rightarrow> string \<Rightarrow> WebDAVFS \<Rightarrow> (error + unit) \<times> WebDAVFS" where
  "onDeleteEntryRequested env fileSystemId entryPath s =
     (case webDAVClientMap s fileSystemId of
        None \<Rightarrow> (Inl (TypeError ''client''), s)
      | Some client \<Rightarrow>
          (case await env (DeleteFile client entryPath) s of
             (r, s1) \<Rightarrow> evict fileSystemId [entryPath] s1))"

text \<open>
  \<^verbatim>\<open>async onCreateFileRequested(options) {
    const { fileSystemId, filePath } = options;
    const client = this.#webDAVClientMap[fileSystemId];
    await client.putFileContents(filePath, new ArrayBuffer(0));
    const metadataCache = this.#metadataCacheMap[fileSystemId];
    metadataCache.remove(filePath);
  }\<close>
\<close>

definition onCreateFileRequested :: "env \<Rightarrow> string \<Rightarrow> string \<Rightarrow> WebDAVFS \<Rightarrow> (error + unit) \<times> WebDAVFS" where
  "onCreateFileRequested env fileSystemId filePath s =
     (case webDAVClientMap s fileSystemId of
        None \<Rightarrow> (Inl (TypeError ''client''), s)
      | Some client \<Rightarrow>
          (case await env (PutFileContents client (JStr filePath) (JBuf [])) s of
             (Rejected e, s1) \<Rightarrow> (Inl (Error e), s1)
           | (r, s1) \<Rightarrow> evict fileSystemId [filePath] s1))"

text \<open>
  \<^verbatim>\<open>async onCopyEntryRequested(options) {
    const { fileSystemId, sourcePath, targetPath } = options;
    const client = this.#webDAVClientMap[fileSystemId];
    await client.copyFile(sourcePath, targetPath);
    const metadataCache = this.#metadataCacheMap[fileSystemId];
    metadataCache.remove(sourcePath);
    metadataCache.remove(targetPath);
  }\<close>
  \<open>onMoveEntryRequested\<close> is the same with \<open>moveFile\<close>.
\<close>

definition onCopyEntryRequested :: "env \<Rightarrow> string \<Rightarrow> string \<Rightarrow> string \<Rightarrow> WebDAVFS \<Rightarrow> (error + unit) \<times> WebDAVFS" where
  "onCopyEntryRequested env fileSystemId sourcePath targetPath s =
     (case webDAVClientMap s fileSystemId of
        None \<Rightarrow> (Inl (TypeError ''client''), s)
      | Some client \<Rightarrow>
          (case await env (CopyFile client sourcePath targetPath) s of
             (Rejected e, s1) \<Rightarrow> (Inl (Error e), s1)
           | (r, s1) \<Rightarrow> evict fileSystemId [sourcePath, targetPath] s1))"

definition onMoveEntryRequested :: "env \<Rightarrow> string \<Rightarrow> string \<Rightarrow> string \<Rightarrow> WebDAVFS \<Rightarrow> (error + unit) \<times> WebDAVFS" where
  "onMoveEntryRequested env fileSystemId sourcePath targetPath s =
     (case webDAVClientMap s fileSystemId of
        None \<Rightarrow> (Inl (TypeError ''client''), s)
      | Some client \<Rightarrow>
          (case await env (MoveFile client sourcePath targetPath) s of
             (Rejected e, s1) \<Rightarrow> (Inl (Error e), s1)
           | (r, s1) \<Rightarrow> evict fileSystemId [sourcePath, targetPath] s1))"

text \<open>
  \<open>putFileContents\<close> is called with one argument, the sliced buffer, where the path goes;
  its data argument is \<open>undefined\<close>. The cache is not touched.
  \<^verbatim>\<open>async onTruncateRequested(options) {
    const { fileSystemId, filePath, length } = options;
    const client = this.#webDAVClientMap[fileSystemId];
    const buffer = await client.getFileContents(filePath);
    await client.putFileContents(buffer.slice(0, length));
  }\<close>
\<close>

definition onTruncateRequested :: "env \<Rightarrow> string \<Rightarrow> string \<Rightarrow> int \<Rightarrow> WebDAVFS \<Rightarrow> (error + unit) \<times> WebDAVFS" where
  "onTruncateRequested env fileSystemId filePath length' s =
     (case webDAVClientMap s fileSystemId of
        None \<Rightarrow> (Inl (TypeError ''client''), s)
      | Some client \<Rightarrow>
          (case await env (GetFileContents client filePath) s of
             (Rejected e, s1) \<Rightarrow> (Inl (Error e), s1)
           | (ResolvedBuffer buffer, s1) \<Rightarrow>
               (case await env (PutFileContents client (JBuf (buffer_slice0 buffer length')) JUndefined) s1 of
                  (Rejected e, s2) \<Rightarrow> (Inl (Error e), s2)
                | (r, s2) \<Rightarrow> (Inr (), s2))
           | (r, s1) \<Rightarrow> (Inl (TypeError ''buffer''), s1)))"

text \<open>
  \<^verbatim>\<open>async onWriteFileRequested(options) {
    const { fileSystemId, openRequestId, offset, data } = options;
    const { filePath } = this.#openedFilesMap[openRequestId];
    const { uuid } = this.#openedFilesMap[openRequestId];
    const client = this.#webDAVClientMap[fileSystemId];
    const end = offset + data.byteLength;
    const uploadPath = `/${uuid}/${paddedIndex(offset)}-${paddedIndex(end)}`;
    await client.putFileContents(uploadPath, data);
  }\<close>
  The \<open>uuid\<close> of the empty object is \<open>undefined\<close>, which the template literal prints.
\<close>

definition onWriteFileRequested ::
  "env \<Rightarrow> string \<Rightarrow> nat \<Rightarrow> nat \<Rightarrow> bytes \<Rightarrow> WebDAVFS \<Rightarrow> (error + unit) \<times> WebDAVFS" where
  "onWriteFileRequested env fileSystemId openRequestId offset data s =
     (case openedFilesMap s (String_of_nat openRequestId) of
        None \<Rightarrow> (Inl (TypeError ''openedFile''), s)
      | Some opened \<Rightarrow>
          (let uuid = (case opened of Opened filePath mode uuid \<Rightarrow> uuid | EmptyObject \<Rightarrow> ''undefined'')
           in case webDAVClientMap s fileSystemId of
                None \<Rightarrow> (Inl (TypeError ''client''), s)
              | Some client \<Rightarrow>
                  (case await env (PutFileContents client (JStr (uploadPath uuid offset data)) (JBuf data)) s of
                     (Rejected e, s1) \<Rightarrow> (Inl (Error e), s1)
                   | (r, s1) \<Rightarrow> (Inr (), s1))))"

text \<open>
  The fields of a new instance, before the constructor resumes anything:
  \<^verbatim>\<open>#webDAVClientMap = {}; #openedFilesMap = {}; #metadataCacheMap = {};\<close>
\<close>

definition new_WebDAVFS :: WebDAVFS where
  "new_WebDAVFS =
     \<lparr>webDAVClientMap = Map.empty, openedFilesMap = Map.empty,
      metadataCacheMap = Map.empty, calls = []\<rparr>"

text \<open>
  The host sends the write requests of a session one after the other; a request that fails
  ends the sequence.
\<close>

fun writeFileRequests ::
  "env \<Rightarrow> string \<Rightarrow> nat \<Rightarrow> (nat \<times> bytes) list \<Rightarrow> WebDAVFS \<Rightarrow> (error + unit) \<times> WebDAVFS" where
  "writeFileRequests env fileSystemId openRequestId [] s = (Inr (), s)"
| "writeFileRequests env fileSystemId openRequestId ((offset, data) # rest) s =
     (case onWriteFileRequested env fileSystemId openRequestId offset data s of
        (Inl e, s1) \<Rightarrow> (Inl e, s1)
      | (Inr u, s1) \<Rightarrow> writeFileRequests env fileSystemId openRequestId rest s1)"

section \<open>Example mounts, replies and states\<close>

definition alice :: credential where
  "alice = Credential ''Docs'' ''https://example.com/dav'' ''alice'' ''secret''"

definition bob :: credential where
  "bob = Credential ''Work'' ''https://example.org/dav'' ''bob'' ''hunter2''"

definition carol :: credential where
  "carol = Credential ''Home'' ''https://example.net/dav'' ''carol'' ''opensesame''"

definition alice_client :: client where
  "alice_client = createClient ''https://example.com/dav'' ''alice'' ''secret''"

definition bob_client :: client where
  "bob_client = createClient ''https://example.org/dav'' ''bob'' ''hunter2''"

definition carol_client :: client where
  "carol_client = createClient ''https://example.net/dav'' ''carol'' ''opensesame''"

definition alice_id :: string where
  "alice_id = createFileSystemID ''https://example.com/dav'' ''alice''"

definition bob_id :: string where
  "bob_id = createFileSystemID ''https://example.org/dav'' ''bob''"

definition carol_id :: string where
  "carol_id = createFileSystemID ''https://example.net/dav'' ''carol''"

definition a_txt :: stat where
  "a_txt = \<lparr>basename = ''a.txt'', lastmod = ''Mon, 01 Jan 2024 00:00:00 GMT'', size' = 5,
            type = ''file'', mime = Some ''text/plain''\<rparr>"

text \<open>
  A world that accepts every request: the three records are persisted, every directory
  lists \<open>a.txt\<close>, which holds five bytes.
\<close>

fun env_ok :: env where
  "env_ok h StorageGet =
     ResolvedStorage (Some [(alice_id, alice), (bob_id, bob), (carol_id, carol)])"
| "env_ok h (GetDirectoryContents c path) = ResolvedStats [a_txt]"
| "env_ok h (Stat c path) = ResolvedStat a_txt"
| "env_ok h (GetFileContents c path) = ResolvedBuffer [1, 2, 3, 4, 5]"
| "env_ok h request = Resolved"

text \<open>The same, but the server of the second record cannot be reached.\<close>

fun env_bob_down :: env where
  "env_bob_down h (GetDirectoryContents c path) =
     (if c = bob_client then Rejected ''Network Error'' else ResolvedStats [a_txt])"
| "env_bob_down h request = env_ok h request"

text \<open>The mount identity of a persisted record.\<close>

fun fileSystemId_of :: "credential \<Rightarrow> string" where
  "fileSystemId_of (Credential name url username password) = createFileSystemID url username"

text \<open>
  The state with the first record mounted, as \<open>resumeMounts\<close> leaves it, and the state it
  is in after the root directory has been listed.
\<close>

definition alice_mounted :: WebDAVFS where
  "alice_mounted =
     \<lparr>webDAVClientMap = [alice_id \<mapsto> alice_client],
      openedFilesMap = [alice_id \<mapsto> EmptyObject],
      metadataCacheMap = [alice_id \<mapsto> new_MetadataCache],
      calls = []\<rparr>"

definition a_txt_cached :: MetadataCache where
  "a_txt_cached = MetadataCache_put ''/'' [fromStat a_txt] new_MetadataCache"

definition alice_cached :: WebDAVFS where
  "alice_cached =
     alice_mounted\<lparr>metadataCacheMap := [alice_id \<mapsto> a_txt_cached],
                   calls := [GetDirectoryContents alice_client ''/'']\<rparr>"

text \<open>The request options that ask for the name and the size.\<close>

fun name_and_size :: "string \<Rightarrow> jsval" where
  "name_and_size key = (if key = ''name'' \<or> key = ''size'' then JBool True else JUndefined)"

text \<open>
  For the proofs only: the \<open>k\<close> low decimal digits of \<open>n\<close>, most significant first.
\<close>

fun fixed_width :: "nat \<Rightarrow> nat \<Rightarrow> string" where
  "fixed_width 0 n = []"
| "fixed_width (Suc k) n = fixed_width k (n div 10) @ [digit_char (n mod 10)]"

section \<open>The mount identity\<close>

text \<open>
  C10. Two distinct mount configurations can have the same mount identity: a \<open>/\<close> in the
  user name moves the boundary between user name and URL, so \<open>createFileSystemID\<close> is not
  injective (the user \<open>a\<close> on the URL \<open>b/c\<close> and the user \<open>a/b\<close> on the URL \<open>c\<close> are one mount).
\<close>

theorem createFileSystemID_not_injective:
  "\<exists>url1 username1 url2 username2.
     (url1, username1) \<noteq> (url2, username2) \<and>
     createFileSystemID url1 username1 = createFileSystemID url2 username2"
proof -
  have "(''b/c'', ''a'') \<noteq> (''c'', ''a/b'')" by simp
  moreover have "createFileSystemID ''b/c'' ''a'' = createFileSystemID ''c'' ''a/b''"
    by (simp add: createFileSystemID_def)
  ultimately show ?thesis by blast
qed

section \<open>Field projection\<close>

lemma fold_delete_prop_filter:
  "fold (\<lambda>key m. if \<not> truthy (options key) then delete_prop key m else m) ks ob =
   filter (\<lambda>kv. fst kv \<notin> set ks \<or> truthy (options (fst kv))) ob"
proof (induction ks arbitrary: ob)
  case Nil
  then show ?case by simp
next
  case (Cons k ks)
  show ?case
    by (cases "truthy (options k)") (auto simp: Cons.IH delete_prop_def intro: filter_cong)
qed

text \<open>
  C9. The metadata handed to the caller holds exactly the fields of the record whose option
  flag \<open>options[key]\<close> is truthy, with their values and in their order, and no other field.
\<close>

theorem canonicalizedMetadata_projection:
  "canonicalizedMetadata md options = filter (\<lambda>kv. truthy (options (fst kv))) md"
  unfolding canonicalizedMetadata_def Object_keys_def fold_delete_prop_filter
  by (rule filter_cong) auto

section \<open>Chunk names\<close>

lemma digit_char_simps:
  "digit_char 0 = CHR ''0''" "digit_char 1 = CHR ''1''" "digit_char 2 = CHR ''2''"
  "digit_char 3 = CHR ''3''" "digit_char 4 = CHR ''4''" "digit_char 5 = CHR ''5''"
  "digit_char 6 = CHR ''6''" "digit_char 7 = CHR ''7''" "digit_char 8 = CHR ''8''"
  "digit_char 9 = CHR ''9''" "digit_char (Suc 0) = CHR ''1''"
  by code_simp+

lemma digit_char_less: "a < 10 \<Longrightarrow> b < 10 \<Longrightarrow> digit_char a < digit_char b \<longleftrightarrow> a < b"
  by (simp add: digit_char_def less_char_def)

lemma digit_char_eq: "a < 10 \<Longrightarrow> b < 10 \<Longrightarrow> digit_char a = digit_char b \<longleftrightarrow> a = b"
proof
  assume h: "a < 10" "b < 10" "digit_char a = digit_char b"
  then have "(of_char (digit_char a) :: nat) = of_char (digit_char b)" by simp
  with h show "a = b" by (simp add: digit_char_def)
qed simp

lemma length_fixed_width [simp]: "length (fixed_width k n) = k"
  by (induction k arbitrary: n) auto

lemma append_less_same_length:
  "length a = length b \<Longrightarrow> (a::'a::linorder list) @ u < b @ v \<longleftrightarrow> a < b \<or> a = b \<and> u < v"
  by (induction a b rule: list_induct2) auto

lemma append_less_cancel: "(p::'a::linorder list) @ u < p @ v \<longleftrightarrow> u < v"
  by (induction p) auto

lemma div_mod_less_iff:
  "(m::nat) < n \<longleftrightarrow> m div 10 < n div 10 \<or> m div 10 = n div 10 \<and> m mod 10 < n mod 10"
proof -
  define a b c d where "a = m div 10" and "b = m mod 10" and "c = n div 10" and "d = n mod 10"
  have m: "m = 10 * a + b" and n: "n = 10 * c + d"
    by (simp_all add: a_def b_def c_def d_def)
  have bd: "b < 10" "d < 10"
    by (simp_all add: b_def d_def)
  have "10 * a + b < 10 * c + d \<longleftrightarrow> a < c \<or> a = c \<and> b < d"
    using bd by linarith
  then show ?thesis
    unfolding a_def b_def c_def d_def by simp
qed

lemma div_mod_eq_iff:
  "(m::nat) = n \<longleftrightarrow> m div 10 = n div 10 \<and> m mod 10 = n mod 10"
proof
  assume "m div 10 = n div 10 \<and> m mod 10 = n mod 10"
  then have "10 * (m div 10) + m mod 10 = 10 * (n div 10) + n mod 10" by simp
  then show "m = n" by simp
qed simp

lemma fixed_width_eq_iff:
  "m < 10 ^ k \<Longrightarrow> n < 10 ^ k \<Longrightarrow> fixed_width k m = fixed_width k n \<longleftrightarrow> m = n"
proof (induction k arbitrary: m n)
  case 0
  then show ?case by simp
next
  case (Suc k)
  from Suc.prems have d: "m div 10 < 10 ^ k" "n div 10 < 10 ^ k"
    by (simp_all add: less_mult_imp_div_less mult.commute)
  have "fixed_width (Suc k) m = fixed_width (Suc k) n \<longleftrightarrow>
        fixed_width k (m div 10) = fixed_width k (n div 10) \<and> digit_char (m mod 10) = digit_char (n mod 10)"
    by simp
  also have "\<dots> \<longleftrightarrow> m div 10 = n div 10 \<and> m mod 10 = n mod 10"
    by (simp add: Suc.IH [OF d] digit_char_eq)
  also have "\<dots> \<longleftrightarrow> m = n"
    using div_mod_eq_iff [of m n] by simp
  finally show ?case .
qed

lemma fixed_width_less_iff:
  "m < 10 ^ k \<Longrightarrow> n < 10 ^ k \<Longrightarrow> fixed_width k m < fixed_width k n \<longleftrightarrow> m < n"
proof (induction k arbitrary: m n)
  case 0
  then show ?case by simp
next
  case (Suc k)
  from Suc.prems have d: "m div 10 < 10 ^ k" "n div 10 < 10 ^ k"
    by (simp_all add: less_mult_imp_div_less mult.commute)
  have "fixed_width (Suc k) m < fixed_width (Suc k) n \<longleftrightarrow>
        fixed_width k (m div 10) < fixed_width k (n div 10) \<or>
        fixed_width k (m div 10) = fixed_width k (n div 10) \<and> digit_char (m mod 10) < digit_char (n mod 10)"
    by (simp add: append_less_same_length)
  also have "\<dots> \<longleftrightarrow> m div 10 < n div 10 \<or> m div 10 = n div 10 \<and> m mod 10 < n mod 10"
    by (simp add: Suc.IH [OF d] fixed_width_eq_iff [OF d] digit_char_less)
  also have "\<dots> \<longleftrightarrow> m < n"
    using div_mod_less_iff [of m n] by simp
  finally show ?case .
qed

lemma fixed_width_zero: "fixed_width k 0 = replicate k (CHR ''0'')"
  by (induction k) (simp_all add: digit_char_simps replicate_append_same)

lemma pad_String_of_nat:
  "n < 10 ^ k \<Longrightarrow> 0 < k \<Longrightarrow>
   replicate (k - length (String_of_nat n)) (CHR ''0'') @ String_of_nat n = fixed_width k n"
proof (induction k arbitrary: n)
  case 0
  then show ?case by simp
next
  case (Suc k)
  show ?case
  proof (cases "n < 10")
    case True
    then have "n div 10 = 0" by simp
    with True show ?thesis
      by (simp add: String_of_nat.simps [of n] fixed_width_zero)
  next
    case False
    from Suc.prems have d: "n div 10 < 10 ^ k"
      by (simp add: less_mult_imp_div_less mult.commute)
    from False d have k: "0 < k" by (cases k) auto
    from False show ?thesis
      using Suc.IH [OF d k] by (simp add: String_of_nat.simps [of n])
  qed
qed

lemma length_String_of_nat_le:
  assumes "n < 10 ^ k" "0 < k"
  shows "length (String_of_nat n) \<le> k"
proof -
  have "length (replicate (k - length (String_of_nat n)) (CHR ''0'') @ String_of_nat n) = k"
    using pad_String_of_nat [OF assms] by simp
  then show ?thesis by simp
qed

lemma paddedIndex_fixed_width:
  assumes "index < 10 ^ 15"
  shows "paddedIndex index = fixed_width 15 index"
proof -
  have l: "length (String_of_nat index) \<le> 15"
    using length_String_of_nat_le [of index 15] assms by simp
  have p: "''000000000000000'' = replicate 15 (CHR ''0'')"
    by (simp add: eval_nat_numeral)
  have "paddedIndex index =
        drop (length (String_of_nat index)) (replicate 15 (CHR ''0'') @ String_of_nat index)"
    unfolding paddedIndex_def slice_last_def Let_def p by simp
  also have "\<dots> = replicate (15 - length (String_of_nat index)) (CHR ''0'') @ String_of_nat index"
    using l by simp
  also have "\<dots> = fixed_width 15 index"
    using pad_String_of_nat [of index 15] assms by simp
  finally show ?thesis .
qed

lemma uploadPath_less_iff:
  assumes "offset1 + length data1 < 10 ^ 15" and "offset2 + length data2 < 10 ^ 15"
  shows "uploadPath uuid offset1 data1 < uploadPath uuid offset2 data2 \<longleftrightarrow>
           offset1 < offset2 \<or> offset1 = offset2 \<and> offset1 + length data1 < offset2 + length data2"
proof -
  define e1 where "e1 = offset1 + length data1"
  define e2 where "e2 = offset2 + length data2"
  have b: "offset1 < 10 ^ 15" "offset2 < 10 ^ 15" "e1 < 10 ^ 15" "e2 < 10 ^ 15"
    using assms by (simp_all add: e1_def e2_def)
  have u1: "uploadPath uuid offset1 data1 =
            (''/'' @ uuid @ ''/'') @ fixed_width 15 offset1 @ ''-'' @ fixed_width 15 e1"
    using b by (simp add: uploadPath_def Let_def paddedIndex_fixed_width e1_def)
  have u2: "uploadPath uuid offset2 data2 =
            (''/'' @ uuid @ ''/'') @ fixed_width 15 offset2 @ ''-'' @ fixed_width 15 e2"
    using b by (simp add: uploadPath_def Let_def paddedIndex_fixed_width e2_def)
  have "uploadPath uuid offset1 data1 < uploadPath uuid offset2 data2 \<longleftrightarrow>
        offset1 < offset2 \<or> offset1 = offset2 \<and> e1 < e2"
    unfolding u1 u2 append_less_cancel
    by (simp add: append_less_same_length fixed_width_less_iff [OF b(1) b(2)]
        fixed_width_less_iff [OF b(3) b(4)] fixed_width_eq_iff [OF b(1) b(2)])
  then show ?thesis by (simp add: e1_def e2_def)
qed

lemma uploadPath_eq_iff:
  assumes "offset1 + length data1 < 10 ^ 15" and "offset2 + length data2 < 10 ^ 15"
  shows "uploadPath uuid offset1 data1 = uploadPath uuid offset2 data2 \<longleftrightarrow>
           offset1 = offset2 \<and> offset1 + length data1 = offset2 + length data2"
proof -
  define e1 where "e1 = offset1 + length data1"
  define e2 where "e2 = offset2 + length data2"
  have b: "offset1 < 10 ^ 15" "offset2 < 10 ^ 15" "e1 < 10 ^ 15" "e2 < 10 ^ 15"
    using assms by (simp_all add: e1_def e2_def)
  have u1: "uploadPath uuid offset1 data1 =
            (''/'' @ uuid @ ''/'') @ fixed_width 15 offset1 @ ''-'' @ fixed_width 15 e1"
    using b by (simp add: uploadPath_def Let_def paddedIndex_fixed_width e1_def)
  have u2: "uploadPath uuid offset2 data2 =
            (''/'' @ uuid @ ''/'') @ fixed_width 15 offset2 @ ''-'' @ fixed_width 15 e2"
    using b by (simp add: uploadPath_def Let_def paddedIndex_fixed_width e2_def)
  have "uploadPath uuid offset1 data1 = uploadPath uuid offset2 data2 \<longleftrightarrow>
        offset1 = offset2 \<and> e1 = e2"
    unfolding u1 u2
    by (simp add: fixed_width_eq_iff [OF b(1) b(2)] fixed_width_eq_iff [OF b(3) b(4)])
  then show ?thesis by (simp add: e1_def e2_def)
qed

text \<open>
  C3, as amended. For two chunk writes of one write session (one \<open>uuid\<close>) whose ends
  \<open>offset + data.byteLength\<close> are below \<open>10^15\<close>, the chunk names compare as strings the way
  the pairs (offset, end) compare as numbers, and two names are equal only for equal pairs.
\<close>

theorem uploadPath_order:
  assumes "offset1 + length data1 < 10 ^ 15" and "offset2 + length data2 < 10 ^ 15"
  shows "(uploadPath uuid offset1 data1 < uploadPath uuid offset2 data2 \<longleftrightarrow>
            offset1 < offset2 \<or> offset1 = offset2 \<and> offset1 + length data1 < offset2 + length data2)
       \<and> (uploadPath uuid offset1 data1 = uploadPath uuid offset2 data2 \<longleftrightarrow>
            offset1 = offset2 \<and> offset1 + length data1 = offset2 + length data2)"
  using uploadPath_less_iff [OF assms] uploadPath_eq_iff [OF assms] by blast

theorem uploadPath_order_witness:
  "(5::nat) + length [0::8 word] < 10 ^ 15 \<and> (7::nat) + length [0::8 word, 0] < 10 ^ 15 \<and>
   uploadPath ''s'' 5 [0] < uploadPath ''s'' 7 [0, 0] \<and>
   uploadPath ''s'' 5 [0] \<noteq> uploadPath ''s'' 7 [0, 0]"
proof -
  have h1: "(5::nat) + length [0::8 word] < 10 ^ 15" by simp
  have h2: "(7::nat) + length [0::8 word, 0] < 10 ^ 15" by simp
  have "uploadPath ''s'' 5 [0] < uploadPath ''s'' 7 [0, 0]"
    using uploadPath_order [OF h1 h2, of "''s''"] by simp
  moreover have "uploadPath ''s'' 5 [0] \<noteq> uploadPath ''s'' 7 [0, 0]"
    using uploadPath_order [OF h1 h2, of "''s''"] by simp
  ultimately show ?thesis
    using h1 h2 by blast
qed

text \<open>
  The claim as stated fails from \<open>10^15\<close> on, where \<open>slice(-15)\<close> cuts the leading digit:
  the chunk at offset \<open>10^15\<close> is named below the chunk at offset 5.
\<close>

theorem uploadPath_order_counterexample:
  "(5::nat) < 1000000000000000 \<and>
   uploadPath ''s'' 1000000000000000 [0] < uploadPath ''s'' 5 [0]"
proof -
  have a: "paddedIndex 1000000000000000 = ''000000000000000''"
    by (simp add: paddedIndex_def slice_last_def String_of_nat.simps digit_char_simps)
  have b: "paddedIndex 1000000000000001 = ''000000000000001''"
    by (simp add: paddedIndex_def slice_last_def String_of_nat.simps digit_char_simps)
  have c: "paddedIndex 5 = ''000000000000005''"
    by (simp add: paddedIndex_def slice_last_def String_of_nat.simps digit_char_simps)
  have d: "paddedIndex 6 = ''000000000000006''"
    by (simp add: paddedIndex_def slice_last_def String_of_nat.simps digit_char_simps)
  show ?thesis by (simp add: uploadPath_def a b c d)
qed

section \<open>Opening a file for writing\<close>

text \<open>
  C4. An open request with mode \<open>WRITE\<close> should allocate a session identifier and create
  the staging container \<open>/uuid\<close> on the server before the handle is registered. The handler
  never gets there: for every request, every state and every identifier it throws the
  \<open>ReferenceError\<close> of the unbound \<open>fileSystemId\<close>, with no request issued and no handle
  registered.
\<close>

theorem onOpenFileRequested_WRITE_fails:
  "onOpenFileRequested uuid requestId filePath ''WRITE'' s =
     (Inl (ReferenceError ''fileSystemId''), s)"
  by (simp add: onOpenFileRequested_def)

text \<open>Every other mode registers the handle under the request id, with no request issued.\<close>

lemma onOpenFileRequested_other_mode:
  "mode \<noteq> ''WRITE'' \<Longrightarrow>
   onOpenFileRequested uuid requestId filePath mode s =
     (Inr (), s\<lparr>openedFilesMap :=
                  (openedFilesMap s)(String_of_nat requestId \<mapsto> Opened filePath mode uuid)\<rparr>)"
  by (simp add: onOpenFileRequested_def)

section \<open>Unmounting\<close>

lemma String_of_nat_digits: "set (String_of_nat n) \<subseteq> digit_char ` {..<10}"
proof (induction n rule: String_of_nat.induct)
  case (1 n)
  show ?case
  proof (cases "n < 10")
    case True
    then show ?thesis by (simp add: String_of_nat.simps [of n])
  next
    case False
    with 1 show ?thesis by (simp add: String_of_nat.simps [of n])
  qed
qed

lemma digit_char_not_w: "d < 10 \<Longrightarrow> digit_char d \<noteq> CHR ''w''"
proof
  assume d: "d < 10" and "digit_char d = CHR ''w''"
  then have "(of_char (digit_char d) :: nat) = of_char (CHR ''w'')" by simp
  with d show False by (simp add: digit_char_def)
qed

lemma String_of_nat_neq_createFileSystemID:
  "String_of_nat requestId \<noteq> createFileSystemID url username"
proof
  assume eq: "String_of_nat requestId = createFileSystemID url username"
  then have "CHR ''w'' \<in> set (String_of_nat requestId)"
    by (simp add: createFileSystemID_def)
  with String_of_nat_digits [of requestId] obtain d where "d < 10" "digit_char d = CHR ''w''"
    by auto
  with digit_char_not_w show False by blast
qed

lemma removeMountedCredential_maps:
  "webDAVClientMap (snd (removeMountedCredential env fileSystemId s)) = webDAVClientMap s \<and>
   openedFilesMap (snd (removeMountedCredential env fileSystemId s)) = openedFilesMap s \<and>
   metadataCacheMap (snd (removeMountedCredential env fileSystemId s)) = metadataCacheMap s"
  by (simp add: removeMountedCredential_def await_def split: reply.splits option.splits)

text \<open>
  When the host accepts the unmount, the client and the metadata cache of the mount are
  discarded.
\<close>

lemma onUnmountRequested_discards_mount:
  assumes "\<And>e. env (calls s) (FspUnmount fileSystemId) \<noteq> Rejected e"
  shows "webDAVClientMap (snd (onUnmountRequested env fileSystemId s)) fileSystemId = None \<and>
         metadataCacheMap (snd (onUnmountRequested env fileSystemId s)) fileSystemId = None"
  using assms
  by (simp add: onUnmountRequested_def await_def removeMountedCredential_maps split: reply.splits)

text \<open>
  C8. Unmounting should discard every open file handle of the mount. The handles are stored
  under \<open>String(requestId)\<close> and carry no mount; \<open>delete this.#openedFilesMap[fileSystemId]\<close>
  removes the key of the mount identity, which no request id prints as. So for every mount
  identity and every request id the entry of the handle is after the unmount what it was
  before it.
\<close>

theorem onUnmountRequested_keeps_handles:
  "openedFilesMap (snd (onUnmountRequested env (createFileSystemID url username) s))
     (String_of_nat requestId) = openedFilesMap s (String_of_nat requestId)"
  by (simp add: onUnmountRequested_def await_def removeMountedCredential_maps
      String_of_nat_neq_createFileSystemID split: reply.splits)

section \<open>Cache eviction\<close>

text \<open>
  The handlers for deleting, creating a file, copying and moving end in \<open>evict\<close>, after
  which the cache of the mount has no listing and no entry for the evicted paths.
\<close>

lemma map_of_delete_prop: "map_of (delete_prop k ob) k' = (if k' = k then None else map_of ob k')"
  by (induction ob) (auto simp: delete_prop_def)

lemma MetadataCache_remove_fold:
  "map_of (listings (fold MetadataCache_remove paths c)) p =
     (if p \<in> set paths then None else map_of (listings c) p) \<and>
   map_of (entries (fold MetadataCache_remove paths c)) p =
     (if p \<in> set paths then None else map_of (entries c) p)"
  by (induction paths arbitrary: c) (auto simp: MetadataCache_remove_def map_of_delete_prop)

lemma evict_removes:
  assumes "evict fileSystemId paths s = (Inr u, s')" and "p \<in> set paths"
  shows "\<exists>c. metadataCacheMap s' fileSystemId = Some c \<and>
             map_of (listings c) p = None \<and> map_of (entries c) p = None"
  using assms
  by (auto simp: evict_def MetadataCache_remove_fold split: option.splits)

text \<open>
  C2. After a mutating operation on a path the cache should hold no entry for it. The
  handlers for writing and truncating never call \<open>remove\<close>, and the handler for creating a
  directory throws before it does anything: whatever the cache of the mount holds for the
  path before the request, it holds after it.
\<close>

theorem handlers_without_eviction:
  "metadataCacheMap (snd (onWriteFileRequested env fileSystemId openRequestId offset data s)) =
     metadataCacheMap s \<and>
   metadataCacheMap (snd (onTruncateRequested env fileSystemId filePath n s)) = metadataCacheMap s \<and>
   metadataCacheMap (snd (onCreateDirectoryRequested env fileSystemId directoryPath s)) =
     metadataCacheMap s"
  by (simp add: onWriteFileRequested_def onTruncateRequested_def onCreateDirectoryRequested_def
      await_def Let_def split: option.splits reply.splits opened.splits)

lemma fixture_simps:
  "webDAVClientMap alice_mounted alice_id = Some alice_client"
  "metadataCacheMap alice_mounted alice_id = Some new_MetadataCache"
  "calls alice_mounted = []"
  "webDAVClientMap alice_cached alice_id = Some alice_client"
  "metadataCacheMap alice_cached alice_id = Some a_txt_cached"
  "calls alice_cached = [GetDirectoryContents alice_client ''/'']"
  by (simp_all add: alice_mounted_def alice_cached_def)

lemma a_txt_cached_get:
  "MetadataCache_get ''/a.txt'' a_txt_cached =
     \<lparr>directoryExists = True, fileExists = True, metadata = Some (fromStat a_txt)\<rparr>"
  "MetadataCache_get ''/b.txt'' a_txt_cached =
     \<lparr>directoryExists = False, fileExists = False, metadata = None\<rparr>"
  by (simp_all add: MetadataCache_get_def MetadataCache_put_def a_txt_cached_def
      new_MetadataCache_def child_path_def set_prop_def fromStat_def a_txt_def)

lemma canonicalizedMetadata_a_txt:
  "canonicalizedMetadata (fromStat a_txt) name_and_size =
     [(''name'', JStr ''a.txt''), (''size'', JNum 5)]"
  by (simp add: canonicalizedMetadata_def Object_keys_def fromStat_def a_txt_def delete_prop_def)

text \<open>
  For example: listing the root directory of the mount caches \<open>/a.txt\<close> at five bytes;
  truncating it to three bytes then succeeds and leaves the cache as it was, and the next
  metadata request is answered from the cache, with the size five and no request to the
  server.
\<close>

lemma readDirectory_then_cached:
  "onReadDirectoryRequested env_ok alice_id ''/'' name_and_size alice_mounted =
     (Inr ([[(''name'', JStr ''a.txt''), (''size'', JNum 5)]], False), alice_cached)"
  by (simp add: onReadDirectoryRequested_def await_def Let_def alice_mounted_def alice_cached_def
      a_txt_cached_def canonicalizedMetadata_a_txt)

lemma truncate_then_cached_metadata:
  "onTruncateRequested env_ok alice_id ''/a.txt'' 3 alice_cached =
     (Inr (), alice_cached\<lparr>calls := [GetDirectoryContents alice_client ''/'',
                                      GetFileContents alice_client ''/a.txt'',
                                      PutFileContents alice_client (JBuf [1, 2, 3]) JUndefined]\<rparr>) \<and>
   onGetMetadataRequested env_ok alice_id ''/a.txt'' name_and_size
     (alice_cached\<lparr>calls := [GetDirectoryContents alice_client ''/'',
                               GetFileContents alice_client ''/a.txt'',
                               PutFileContents alice_client (JBuf [1, 2, 3]) JUndefined]\<rparr>) =
     (Inr [[(''name'', JStr ''a.txt''), (''size'', JNum 5)]],
      alice_cached\<lparr>calls := [GetDirectoryContents alice_client ''/'',
                               GetFileContents alice_client ''/a.txt'',
                               PutFileContents alice_client (JBuf [1, 2, 3]) JUndefined]\<rparr>)"
  by (simp add: onTruncateRequested_def onGetMetadataRequested_def await_def fixture_simps
      buffer_slice0_def a_txt_cached_get canonicalizedMetadata_a_txt)

section \<open>Truncating\<close>

text \<open>
  C6. Truncating should upload the first \<open>length\<close> bytes of the content to the same path.
  The handler fetches the content of the path and slices it, but the one upload it issues
  has the sliced buffer where the path goes and \<open>undefined\<close> as data: no request uploads
  anything to the path.
\<close>

theorem onTruncateRequested_puts_no_path:
  assumes "webDAVClientMap s fileSystemId = Some client"
    and "env (calls s) (GetFileContents client filePath) = ResolvedBuffer buffer"
  shows "calls (snd (onTruncateRequested env fileSystemId filePath n s)) =
           calls s @ [GetFileContents client filePath,
                      PutFileContents client (JBuf (buffer_slice0 buffer n)) JUndefined]"
  using assms
  by (simp add: onTruncateRequested_def await_def split: reply.splits)

theorem onTruncateRequested_puts_no_path_witness:
  "webDAVClientMap alice_mounted alice_id = Some alice_client \<and>
   env_ok (calls alice_mounted) (GetFileContents alice_client ''/a.txt'') =
     ResolvedBuffer [1, 2, 3, 4, 5] \<and>
   calls (snd (onTruncateRequested env_ok alice_id ''/a.txt'' 3 alice_mounted)) =
     [GetFileContents alice_client ''/a.txt'',
      PutFileContents alice_client (JBuf [1, 2, 3]) JUndefined]"
proof -
  have h1: "webDAVClientMap alice_mounted alice_id = Some alice_client"
    by (simp add: fixture_simps)
  have h2: "env_ok (calls alice_mounted) (GetFileContents alice_client ''/a.txt'') =
            ResolvedBuffer [1, 2, 3, 4, 5]"
    by simp
  have "buffer_slice0 [1, 2, 3, 4, 5] 3 = [1, 2, 3]"
    by (simp add: buffer_slice0_def)
  then show ?thesis
    using onTruncateRequested_puts_no_path [where env = env_ok and n = 3, OF h1 h2] h1 h2
    by (simp add: fixture_simps)
qed

section \<open>Metadata requests\<close>

text \<open>
  C5. A metadata request without thumbnail on a mounted path: if the cache reports both the
  listing and the entry present, the cached metadata (projected to the requested fields) is
  returned and the state, with its list of requests, is unchanged; otherwise the one request
  issued is a \<open>stat\<close> of the path, and the translation of its result (projected likewise)
  is returned.
\<close>

theorem onGetMetadataRequested_cache_or_stat:
  assumes "\<not> truthy (options ''thumbnail'')"
    and "metadataCacheMap s fileSystemId = Some metadataCache"
    and "cache = MetadataCache_get entryPath metadataCache"
  shows "(directoryExists cache \<and> fileExists cache \<longrightarrow>
            (\<exists>md. metadata cache = Some md \<and>
               onGetMetadataRequested env fileSystemId entryPath options s =
                 (Inr [canonicalizedMetadata md options], s)))
       \<and> (\<not> (directoryExists cache \<and> fileExists cache) \<and>
            webDAVClientMap s fileSystemId = Some client \<and>
            env (calls s) (Stat client entryPath) = ResolvedStat st \<longrightarrow>
            onGetMetadataRequested env fileSystemId entryPath options s =
              (Inr [canonicalizedMetadata (fromStat st) options],
               s\<lparr>calls := calls s @ [Stat client entryPath]\<rparr>))"
proof (intro conjI impI)
  assume hit: "directoryExists cache \<and> fileExists cache"
  then obtain md where md: "metadata cache = Some md"
    using assms(3) by (auto simp: MetadataCache_get_def)
  with hit assms show "\<exists>md. metadata cache = Some md \<and>
      onGetMetadataRequested env fileSystemId entryPath options s =
        (Inr [canonicalizedMetadata md options], s)"
    by (simp add: onGetMetadataRequested_def Let_def)
next
  assume "\<not> (directoryExists cache \<and> fileExists cache) \<and>
          webDAVClientMap s fileSystemId = Some client \<and>
          env (calls s) (Stat client entryPath) = ResolvedStat st"
  with assms show "onGetMetadataRequested env fileSystemId entryPath options s =
      (Inr [canonicalizedMetadata (fromStat st) options],
       s\<lparr>calls := calls s @ [Stat client entryPath]\<rparr>)"
    by (auto simp: onGetMetadataRequested_def Let_def await_def)
qed

theorem onGetMetadataRequested_cache_or_stat_witness:
  "onGetMetadataRequested env_ok alice_id ''/a.txt'' name_and_size alice_cached =
     (Inr [[(''name'', JStr ''a.txt''), (''size'', JNum 5)]], alice_cached) \<and>
   onGetMetadataRequested env_ok alice_id ''/b.txt'' name_and_size alice_cached =
     (Inr [[(''name'', JStr ''a.txt''), (''size'', JNum 5)]],
      alice_cached\<lparr>calls := [GetDirectoryContents alice_client ''/'',
                               Stat alice_client ''/b.txt'']\<rparr>)"
proof -
  have t: "\<not> truthy (name_and_size ''thumbnail'')" by simp
  have c: "metadataCacheMap alice_cached alice_id = Some a_txt_cached"
    by (simp add: fixture_simps)
  have hit: "directoryExists (MetadataCache_get ''/a.txt'' a_txt_cached) \<and>
             fileExists (MetadataCache_get ''/a.txt'' a_txt_cached)"
    by (simp add: a_txt_cached_get)
  have md: "metadata (MetadataCache_get ''/a.txt'' a_txt_cached) = Some (fromStat a_txt)"
    by (simp add: a_txt_cached_get)
  have miss: "\<not> (directoryExists (MetadataCache_get ''/b.txt'' a_txt_cached) \<and>
                fileExists (MetadataCache_get ''/b.txt'' a_txt_cached))"
    by (simp add: a_txt_cached_get)
  have cl: "webDAVClientMap alice_cached alice_id = Some alice_client"
    by (simp add: fixture_simps)
  have st: "env_ok (calls alice_cached) (Stat alice_client ''/b.txt'') = ResolvedStat a_txt"
    by simp
  have 1: "onGetMetadataRequested env_ok alice_id ''/a.txt'' name_and_size alice_cached =
           (Inr [canonicalizedMetadata (fromStat a_txt) name_and_size], alice_cached)"
    using onGetMetadataRequested_cache_or_stat
      [where options = name_and_size and env = env_ok and entryPath = "''/a.txt''", OF t c refl]
      hit md
    by auto
  have 2: "onGetMetadataRequested env_ok alice_id ''/b.txt'' name_and_size alice_cached =
           (Inr [canonicalizedMetadata (fromStat a_txt) name_and_size],
            alice_cached\<lparr>calls := calls alice_cached @ [Stat alice_client ''/b.txt'']\<rparr>)"
    using onGetMetadataRequested_cache_or_stat
      [where options = name_and_size and env = env_ok and entryPath = "''/b.txt''"
         and client = alice_client and st = a_txt, OF t c refl]
      miss cl st
    by blast
  from 1 2 show ?thesis
    by (simp add: canonicalizedMetadata_a_txt fixture_simps)
qed

section \<open>Resuming the persisted mounts\<close>

lemma resumeMounts_loop_append:
  "resumeMounts_loop env (xs @ ys) s =
     (case resumeMounts_loop env xs s of
        (Inl e, s1) \<Rightarrow> (Inl e, s1)
      | (Inr u, s1) \<Rightarrow> resumeMounts_loop env ys s1)"
  by (induction xs arbitrary: s) (auto split: prod.splits sum.splits)

lemma resumeMount_failure:
  assumes "resumeMount env (Credential name url username password) s = (Inl e, s')"
  shows "webDAVClientMap s' = webDAVClientMap s \<and> openedFilesMap s' = openedFilesMap s \<and>
         metadataCacheMap s' = metadataCacheMap s \<and>
         (calls s' = calls s @ [GetDirectoryContents (createClient url username password) ''/''] \<or>
          calls s' = calls s @ [GetDirectoryContents (createClient url username password) ''/'',
                                FspMount (createFileSystemID url username) name True])"
  using assms
  by (auto simp: await_def Let_def split: reply.splits)

lemma resumeMount_success:
  assumes "resumeMount env c s = (Inr u, s')"
  shows "dom (webDAVClientMap s') = insert (fileSystemId_of c) (dom (webDAVClientMap s))"
  using assms
  by (cases c) (auto simp: await_def Let_def split: reply.splits)

lemma resumeMounts_loop_success:
  "resumeMounts_loop env cs s = (Inr u, s') \<Longrightarrow>
   dom (webDAVClientMap s') = fileSystemId_of ` set cs \<union> dom (webDAVClientMap s)"
proof (induction cs arbitrary: s)
  case Nil
  then show ?case by simp
next
  case (Cons c cs)
  from Cons.prems obtain u1 s1 where
    1: "resumeMount env c s = (Inr u1, s1)" and 2: "resumeMounts_loop env cs s1 = (Inr u, s')"
    by (auto split: prod.splits sum.splits)
  from Cons.IH [OF 2] resumeMount_success [OF 1] show ?case by auto
qed

text \<open>
  C7, as amended. \<open>resumeMounts\<close> resumes the persisted records in order and stops at the
  first record whose connectivity check or host registration fails: the call fails with that
  error, the records before it stay resumed, and nothing is created or registered for that
  record or any later one (at most the two requests of the failing record are issued).
\<close>

theorem resumeMounts_stops_at_first_failure:
  assumes "env (calls s) StorageGet = ResolvedStorage (Some stored)"
    and "Object_values stored = pre @ Credential name url username password # post"
    and "resumeMounts_loop env pre (s\<lparr>calls := calls s @ [StorageGet]\<rparr>) = (Inr (), s1)"
    and "resumeMount env (Credential name url username password) s1 = (Inl e, s2)"
  shows "resumeMounts env s = (Inl e, s2) \<and>
         webDAVClientMap s2 = webDAVClientMap s1 \<and> openedFilesMap s2 = openedFilesMap s1 \<and>
         metadataCacheMap s2 = metadataCacheMap s1 \<and>
         (calls s2 = calls s1 @ [GetDirectoryContents (createClient url username password) ''/''] \<or>
          calls s2 = calls s1 @ [GetDirectoryContents (createClient url username password) ''/'',
                                 FspMount (createFileSystemID url username) name True]) \<and>
         dom (webDAVClientMap s2) = fileSystemId_of ` set pre \<union> dom (webDAVClientMap s)"
proof -
  have "resumeMounts_loop env (pre @ Credential name url username password # post)
          (s\<lparr>calls := calls s @ [StorageGet]\<rparr>) = (Inl e, s2)"
    using assms(3) assms(4) by (simp add: resumeMounts_loop_append)
  then have "resumeMounts env s = (Inl e, s2)"
    using assms(1) assms(2) by (simp add: resumeMounts_def getMountedCredentials_def await_def)
  moreover have "dom (webDAVClientMap s1) = fileSystemId_of ` set pre \<union> dom (webDAVClientMap s)"
    using resumeMounts_loop_success [OF assms(3)] by simp
  ultimately show ?thesis
    using resumeMount_failure [OF assms(4)] by simp
qed

lemma clients_distinct:
  "alice_client \<noteq> bob_client" "carol_client \<noteq> bob_client"
  by (simp_all add: alice_client_def bob_client_def carol_client_def createClient_def)

lemma resumeMount_alice:
  "resumeMount env_bob_down alice (new_WebDAVFS\<lparr>calls := [StorageGet]\<rparr>) =
     (Inr (), \<lparr>webDAVClientMap = [alice_id \<mapsto> alice_client],
               openedFilesMap = [alice_id \<mapsto> EmptyObject],
               metadataCacheMap = [alice_id \<mapsto> new_MetadataCache],
               calls = [StorageGet, GetDirectoryContents alice_client ''/'',
                        FspMount alice_id ''Docs'' True]\<rparr>)"
  by (simp add: alice_def new_WebDAVFS_def await_def Let_def alice_client_def [symmetric]
      alice_id_def [symmetric] clients_distinct)

lemma resumeMount_bob:
  "resumeMount env_bob_down (Credential ''Work'' ''https://example.org/dav'' ''bob'' ''hunter2'')
     \<lparr>webDAVClientMap = [alice_id \<mapsto> alice_client],
      openedFilesMap = [alice_id \<mapsto> EmptyObject],
      metadataCacheMap = [alice_id \<mapsto> new_MetadataCache],
      calls = [StorageGet, GetDirectoryContents alice_client ''/'',
               FspMount alice_id ''Docs'' True]\<rparr> =
   (Inl (Error ''Network Error''),
    \<lparr>webDAVClientMap = [alice_id \<mapsto> alice_client],
     openedFilesMap = [alice_id \<mapsto> EmptyObject],
     metadataCacheMap = [alice_id \<mapsto> new_MetadataCache],
     calls = [StorageGet, GetDirectoryContents alice_client ''/'',
              FspMount alice_id ''Docs'' True, GetDirectoryContents bob_client ''/'']\<rparr>)"
  by (simp add: await_def Let_def bob_client_def [symmetric])

theorem resumeMounts_stops_at_first_failure_witness:
  "resumeMounts env_bob_down new_WebDAVFS =
     (Inl (Error ''Network Error''),
      \<lparr>webDAVClientMap = [alice_id \<mapsto> alice_client],
       openedFilesMap = [alice_id \<mapsto> EmptyObject],
       metadataCacheMap = [alice_id \<mapsto> new_MetadataCache],
       calls = [StorageGet, GetDirectoryContents alice_client ''/'', FspMount alice_id ''Docs'' True,
                GetDirectoryContents bob_client ''/'']\<rparr>)"
proof -
  have 1: "env_bob_down (calls new_WebDAVFS) StorageGet =
           ResolvedStorage (Some [(alice_id, alice), (bob_id, bob), (carol_id, carol)])"
    by simp
  have 2: "Object_values [(alice_id, alice), (bob_id, bob), (carol_id, carol)] =
           [alice] @ Credential ''Work'' ''https://example.org/dav'' ''bob'' ''hunter2'' # [carol]"
    by (simp add: Object_values_def bob_def)
  have 3: "resumeMounts_loop env_bob_down [alice]
             (new_WebDAVFS\<lparr>calls := calls new_WebDAVFS @ [StorageGet]\<rparr>) =
           (Inr (), \<lparr>webDAVClientMap = [alice_id \<mapsto> alice_client],
                     openedFilesMap = [alice_id \<mapsto> EmptyObject],
                     metadataCacheMap = [alice_id \<mapsto> new_MetadataCache],
                     calls = [StorageGet, GetDirectoryContents alice_client ''/'',
                              FspMount alice_id ''Docs'' True]\<rparr>)"
    using resumeMount_alice by (simp add: new_WebDAVFS_def)
  show ?thesis
    using resumeMounts_stops_at_first_failure [where env = env_bob_down, OF 1 2 3 resumeMount_bob]
    by simp
qed

text \<open>
  The claim as stated fails when the server of the second of three records cannot be
  reached: the third record is persisted and its server answers, but the call ends at the
  second record, and the third is never resumed.
\<close>

theorem resumeMounts_counterexample:
  "env_bob_down [] StorageGet =
     ResolvedStorage (Some [(alice_id, alice), (bob_id, bob), (carol_id, carol)]) \<and>
   env_bob_down [StorageGet, GetDirectoryContents alice_client ''/'', FspMount alice_id ''Docs'' True,
                 GetDirectoryContents bob_client ''/'']
     (GetDirectoryContents carol_client ''/'') = ResolvedStats [a_txt] \<and>
   resumeMounts env_bob_down new_WebDAVFS =
     (Inl (Error ''Network Error''),
      \<lparr>webDAVClientMap = [alice_id \<mapsto> alice_client],
       openedFilesMap = [alice_id \<mapsto> EmptyObject],
       metadataCacheMap = [alice_id \<mapsto> new_MetadataCache],
       calls = [StorageGet, GetDirectoryContents alice_client ''/'', FspMount alice_id ''Docs'' True,
                GetDirectoryContents bob_client ''/'']\<rparr>)"
proof -
  have "resumeMount env_bob_down bob
          \<lparr>webDAVClientMap = [alice_id \<mapsto> alice_client],
           openedFilesMap = [alice_id \<mapsto> EmptyObject],
           metadataCacheMap = [alice_id \<mapsto> new_MetadataCache],
           calls = [StorageGet, GetDirectoryContents alice_client ''/'',
                    FspMount alice_id ''Docs'' True]\<rparr> =
        (Inl (Error ''Network Error''),
         \<lparr>webDAVClientMap = [alice_id \<mapsto> alice_client],
          openedFilesMap = [alice_id \<mapsto> EmptyObject],
          metadataCacheMap = [alice_id \<mapsto> new_MetadataCache],
          calls = [StorageGet, GetDirectoryContents alice_client ''/'',
                   FspMount alice_id ''Docs'' True, GetDirectoryContents bob_client ''/'']\<rparr>)"
    unfolding bob_def by (rule resumeMount_bob)
  then show ?thesis
    using resumeMount_alice
    by (simp add: resumeMounts_def getMountedCredentials_def await_def Object_values_def
        new_WebDAVFS_def clients_distinct)
qed

section \<open>The chunked upload\<close>

lemma String_of_nat_7: "String_of_nat 7 = ''7''"
  by (simp add: String_of_nat.simps digit_char_simps)

text \<open>
  C1. Writing the chunks \<open>[0,100)\<close>, \<open>[100,250)\<close> and \<open>[250,300)\<close> to a handle opened for
  writing and closing it should leave their concatenation at the target path. The session
  never starts: under a request id that has no handle yet, the open with mode \<open>WRITE\<close>
  throws and stores no handle, so the first write of the session, whatever the order of the
  writes, and the close throw a \<open>TypeError\<close> on the missing handle. The state after the
  three requests is the state before them: no chunk was uploaded and no move issued.
\<close>

theorem write_session_fails_at_open:
  assumes "openedFilesMap s (String_of_nat requestId) = None"
    and "onOpenFileRequested uuid requestId filePath ''WRITE'' s = (result0, s0)"
    and "writeFileRequests env fileSystemId requestId (w # writes) s0 = (result1, s1)"
    and "onCloseFileRequested env fileSystemId requestId s1 = (result2, s2)"
  shows "result0 = Inl (ReferenceError ''fileSystemId'') \<and>
         result1 = Inl (TypeError ''openedFile'') \<and>
         result2 = Inl (TypeError ''openedFile'') \<and>
         s2 = s"
proof -
  obtain offset data where w: "w = (offset, data)" by (cases w)
  from assms(2) have 0: "result0 = Inl (ReferenceError ''fileSystemId'')" "s0 = s"
    by (simp_all add: onOpenFileRequested_def)
  have "onWriteFileRequested env fileSystemId requestId offset data s =
        (Inl (TypeError ''openedFile''), s)"
    using assms(1) by (simp add: onWriteFileRequested_def)
  with assms(3) have 1: "result1 = Inl (TypeError ''openedFile'')" "s1 = s"
    by (simp_all add: w 0)
  have "onCloseFileRequested env fileSystemId requestId s = (Inl (TypeError ''openedFile''), s)"
    using assms(1) by (simp add: onCloseFileRequested_def)
  with assms(4) have 2: "result2 = Inl (TypeError ''openedFile'')" "s2 = s"
    by (simp_all add: 1)
  from 0 1 2 show ?thesis by simp
qed

theorem write_session_fails_at_open_witness:
  "openedFilesMap alice_mounted (String_of_nat 7) = None \<and>
   onOpenFileRequested ''u1'' 7 ''/big.bin'' ''WRITE'' alice_mounted =
     (Inl (ReferenceError ''fileSystemId''), alice_mounted) \<and>
   writeFileRequests env_ok alice_id 7
     [(100, replicate 150 2), (250, replicate 50 3), (0, replicate 100 1)] alice_mounted =
     (Inl (TypeError ''openedFile''), alice_mounted) \<and>
   onCloseFileRequested env_ok alice_id 7 alice_mounted =
     (Inl (TypeError ''openedFile''), alice_mounted)"
proof -
  have h: "openedFilesMap alice_mounted (String_of_nat 7) = None"
    by (simp add: alice_mounted_def String_of_nat_7 alice_id_def createFileSystemID_def)
  obtain result0 s0 where 0:
    "onOpenFileRequested ''u1'' 7 ''/big.bin'' ''WRITE'' alice_mounted = (result0, s0)"
    by (cases "onOpenFileRequested ''u1'' 7 ''/big.bin'' ''WRITE'' alice_mounted")
  obtain result1 s1 where 1:
    "writeFileRequests env_ok alice_id 7
       ((100, replicate 150 2) # [(250, replicate 50 3), (0, replicate 100 1)]) s0 = (result1, s1)"
    by (cases "writeFileRequests env_ok alice_id 7
       ((100, replicate 150 2) # [(250, replicate 50 3), (0, replicate 100 1)]) s0")
  obtain result2 s2 where 2: "onCloseFileRequested env_ok alice_id 7 s1 = (result2, s2)"
    by (cases "onCloseFileRequested env_ok alice_id 7 s1")
  have r: "result0 = Inl (ReferenceError ''fileSystemId'') \<and>
           result1 = Inl (TypeError ''openedFile'') \<and>
           result2 = Inl (TypeError ''openedFile'') \<and> s2 = alice_mounted"
    using write_session_fails_at_open [OF h 0 1 2] .
  have s0: "s0 = alice_mounted"
    using 0 by (simp add: onOpenFileRequested_def)
  have s1: "s1 = alice_mounted"
    using 1 h by (simp add: s0 onWriteFileRequested_def)
  from r 0 1 2 h show ?thesis
    by (simp add: s0 s1)
qed

end
